theory Spec2Isabelle
  imports Complex_Main "HOL-Library.Sublist"
begin

section \<open>HumanKlu artifact pipeline (scripts/pipeline.py): numeric core\<close>

text \<open>
  Scores, ratios and the composite index are JSON numbers. They are modelled as
  rationals with exact arithmetic: every finite Python float and every Python int is a
  rational, and the comparisons of the source are the comparisons of \<open>rat\<close>. Rounding
  error of binary floating point, infinities and NaN are outside this model.
\<close>

subsection \<open>Python's \<open>round(x, n)\<close> and \<open>format(x, ".4f")\<close>\<close>

text \<open>
  \<open>round\<close> rounds to the nearest multiple of \<open>10^-n\<close>, a tie going to the even
  neighbour. \<open>round_half_even\<close> is the integer case, \<open>py_round\<close> scales by the
  number of decimals.
\<close>

definition round_half_even :: "rat \<Rightarrow> int" where
  "round_half_even x =
     (let f = \<lfloor>x\<rfloor>; d = x - of_int f
      in if d < 1 / 2 then f
         else if 1 / 2 < d then f + 1
         else if even f then f else f + 1)"

definition py_round :: "rat \<Rightarrow> nat \<Rightarrow> rat" where
  "py_round x n = of_int (round_half_even (x * 10 ^ n)) / 10 ^ n"

text \<open>Python ints are unbounded: \<open>int\<close>. \<open>str_int\<close> is \<open>str\<close> on an int.\<close>

definition digit_char :: "int \<Rightarrow> char" where
  "digit_char d = ''0123456789'' ! nat (d mod 10)"

function str_int :: "int \<Rightarrow> string" where
  "str_int n =
     (if n < 0 then CHR ''-'' # str_int (- n)
      else if n < 10 then [digit_char n]
      else str_int (n div 10) @ [digit_char (n mod 10)])"
  by pat_completeness auto
termination
  by (relation "measure (\<lambda>n. if n < 0 then nat (- n) + 1 else nat n)") auto

text \<open>\<open>f"{x:.4f}"\<close>: sign, integer part, a dot and exactly four decimals.\<close>

definition format_4f :: "rat \<Rightarrow> string" where
  "format_4f x =
     (let m = round_half_even (\<bar>x\<bar> * 10000)
      in (if x < 0 then ''-'' else '''') @ str_int (m div 10000) @ ''.'' @
         [digit_char (m div 1000), digit_char (m div 100), digit_char (m div 10), digit_char m])"

subsection \<open>EVID ceiling\<close>

text \<open>
  \<open>apply_evid_ceiling(evid_raw, inferred_ratio)\<close> returns the pair
  \<open>(evid_effective, ceiling_note | None)\<close>. The note is the formatted string of the
  source; \<open>{cap}\<close> prints as \<open>6.5\<close> and \<open>7.2\<close>.
\<close>

definition apply_evid_ceiling :: "rat \<Rightarrow> rat \<Rightarrow> rat \<times> string option" where
  "apply_evid_ceiling evid_raw inferred_ratio =
     (if inferred_ratio > 0.75 then
        (let cap = 6.5;
             note = ''EVID capped at 6.5 (inferred_ratio='' @ format_4f inferred_ratio @ '' > 0.75)''
         in (min evid_raw cap, Some note))
      else if inferred_ratio > 0.60 then
        (let cap = 7.2;
             note = ''EVID capped at 7.2 (inferred_ratio='' @ format_4f inferred_ratio @ '' > 0.60)''
         in (min evid_raw cap, Some note))
      else (evid_raw, None))"

subsection \<open>Dimension scores and the composite index\<close>

record dimension =
  score :: rat
  rationale :: "string option"

record dims =
  EVID :: dimension
  MECH :: dimension
  INC :: dimension
  RISK :: dimension
  SPEC :: dimension

text \<open>
  \<open>compute_hci(dims, evid_effective)\<close>: the list of five scores, its sum divided by
  its length, rounded to two decimals.
\<close>

definition compute_hci :: "dims \<Rightarrow> rat \<Rightarrow> rat" where
  "compute_hci ds evid_effective =
     (let scores = [evid_effective, score (MECH ds), score (INC ds), score (RISK ds), score (SPEC ds)]
      in py_round (sum_list scores / of_nat (length scores)) 2)"

subsection \<open>Certification level\<close>

datatype cert_level = HK_INSTITUTIONAL | HK_PRO | HK_VERIFIED | HK_REVIEWED | HK_REJECTED

text \<open>The extra-fields dict of a tier is a list of key and value pairs.\<close>

type_synonym extra_fields = "(string \<times> bool) list"

definition determine_certification_level ::
  "dims \<Rightarrow> rat \<Rightarrow> rat \<Rightarrow> rat \<Rightarrow> 'f list \<Rightarrow> bool \<Rightarrow> cert_level \<times> extra_fields" where
  "determine_certification_level ds evid_effective hci inferred_ratio hallucination_flags
       has_absence_assertions =
     (let spec = score (SPEC ds)
      in if hallucination_flags \<noteq> [] \<or> evid_effective < 6.0 \<or> hci < 5.5 then (HK_REJECTED, [])
         else if hci \<ge> 8.5 \<and> evid_effective \<ge> 8.2 \<and> inferred_ratio \<le> 0.40 \<and> spec \<ge> 7.5
                 \<and> \<not> has_absence_assertions \<and> \<not> hallucination_flags \<noteq> []
           then (HK_INSTITUTIONAL, [(''institutional_requires_two_reviews'', True)])
         else if hci \<ge> 7.8 \<and> evid_effective \<ge> 7.6 \<and> inferred_ratio \<le> 0.50 \<and> spec \<ge> 7.0
                 \<and> \<not> has_absence_assertions
           then (HK_PRO, [(''pro_requires_second_review'', True)])
         else if hci \<ge> 7.3 \<and> evid_effective \<ge> 7.2 \<and> inferred_ratio \<le> 0.60 \<and> spec \<ge> 6.5
                 \<and> \<not> has_absence_assertions
           then (HK_VERIFIED, [])
         else if hci \<ge> 6.0 \<and> evid_effective \<ge> 6.0 then (HK_REVIEWED, [])
         else (HK_REJECTED, []))"

section \<open>Claims\<close>

text \<open>
  A claim is a JSON object read with \<open>.get\<close>: every key may be missing, and a missing
  key is \<open>None\<close> here. The \<open>source\<close> field is \<open>None\<close> when the key is missing, null or
  the empty object, the three cases in which \<open>claim.get("source") or {...}\<close> takes its
  right operand. The \<open>claim_flags\<close> value is a list object: the claim holds a reference
  to it, and the list itself lives in the heap below. Characters are code points below 256.
\<close>

type_synonym ref = nat

record source =
  src_type :: "string option"
  uri :: "string option"
  src_title :: "string option"
  retrieved_at :: "string option"
  excerpt :: "string option"

record claim =
  claim_id :: "string option"
  claim_text :: "string option"
  evidence_type :: "string option"
  source :: "source option"
  source_url :: "string option"
  confidence :: "rat option"
  claim_flags :: "ref option"
  claim_notes :: "string option"

subsection \<open>Strings: truthiness, \<open>or\<close>, \<open>lower\<close>, \<open>in\<close>\<close>

definition truthy :: "string option \<Rightarrow> bool" where
  "truthy v = (case v of None \<Rightarrow> False | Some s \<Rightarrow> s \<noteq> [])"

definition py_or :: "string option \<Rightarrow> string option \<Rightarrow> string option" where
  "py_or a b = (if truthy a then a else b)"

text \<open>
  \<open>str.lower\<close> on code points below 256: the letters A to Z, and the capital letters
  of the Latin-1 block (192 to 222 without the multiplication sign 215), move up by 32.
\<close>

definition lower_char :: "char \<Rightarrow> char" where
  "lower_char c =
     (let n = of_char c :: nat
      in if 65 \<le> n \<and> n \<le> 90 then char_of (n + 32)
         else if 192 \<le> n \<and> n \<le> 222 \<and> n \<noteq> 215 then char_of (n + 32)
         else c)"

definition lower :: "string \<Rightarrow> string" where
  "lower s = map lower_char s"

text \<open>\<open>p in s\<close> on strings is \<^const>\<open>sublist\<close>: \<open>s\<close> is \<open>ps @ p @ ss\<close> for some \<open>ps\<close>, \<open>ss\<close>.\<close>

definition ABSENCE_PHRASES :: "string list" where
  "ABSENCE_PHRASES = [''no third-party audit'', ''no audit'', ''no evidence found'', ''no public audit'']"

subsection \<open>Inferred ratio\<close>

definition compute_inferred_ratio :: "claim list \<Rightarrow> rat" where
  "compute_inferred_ratio cs =
     (if cs = [] then 1.0
      else
        (let inferred = sum_list [1::nat. c \<leftarrow> cs,
                 (case evidence_type c of None \<Rightarrow> ''INFERRED'' | Some t \<Rightarrow> t) = ''INFERRED'']
         in py_round (of_nat inferred / of_nat (length cs)) 4))"

subsection \<open>Absence assertions\<close>

record absence_flag =
  flag_claim_id :: string
  flag_type :: string
  matched_phrase :: string
  detail :: string

text \<open>The loop of \<open>detect_absence_assertions\<close>, with the list \<open>flagged\<close> it appends to.\<close>

fun detect_loop :: "claim list \<Rightarrow> absence_flag list \<Rightarrow> absence_flag list" where
  "detect_loop [] flagged = flagged"
| "detect_loop (c # cs) flagged =
     (let text_lower = lower (case claim_text c of None \<Rightarrow> [] | Some t \<Rightarrow> t);
          matched = List.find (\<lambda>p. sublist p text_lower) ABSENCE_PHRASES
      in if \<not> truthy matched then detect_loop cs flagged
         else
           (let uri = py_or (case source c of None \<Rightarrow> None | Some src \<Rightarrow> uri src) (source_url c)
            in if \<not> truthy uri then
                 detect_loop cs (flagged @
                   [\<lparr>flag_claim_id = (case claim_id c of None \<Rightarrow> ''?'' | Some i \<Rightarrow> i),
                     flag_type = ''ABSENCE_ASSERTION'',
                     matched_phrase = (case matched of None \<Rightarrow> [] | Some m \<Rightarrow> m),
                     detail = ''Claim asserts absence of evidence but provides no source URI.''\<rparr>])
               else detect_loop cs flagged))"

definition detect_absence_assertions :: "claim list \<Rightarrow> absence_flag list" where
  "detect_absence_assertions cs = detect_loop cs []"

text \<open>
  The detector as the specification words it: a claim is flagged when its lower-cased text
  contains one of the phrases and neither URI is set; the reported phrase is the first
  one, in listed order, that the text contains.
\<close>

definition text_lower_of :: "claim \<Rightarrow> string" where
  "text_lower_of c = lower (case claim_text c of None \<Rightarrow> [] | Some t \<Rightarrow> t)"

definition contains_absence_phrase :: "claim \<Rightarrow> bool" where
  "contains_absence_phrase c =
     (sublist ''no third-party audit'' (text_lower_of c) \<or> sublist ''no audit'' (text_lower_of c) \<or>
      sublist ''no evidence found'' (text_lower_of c) \<or> sublist ''no public audit'' (text_lower_of c))"

definition first_phrase :: "claim \<Rightarrow> string" where
  "first_phrase c =
     (if sublist ''no third-party audit'' (text_lower_of c) then ''no third-party audit''
      else if sublist ''no audit'' (text_lower_of c) then ''no audit''
      else if sublist ''no evidence found'' (text_lower_of c) then ''no evidence found''
      else ''no public audit'')"

definition has_source_uri :: "claim \<Rightarrow> bool" where
  "has_source_uri c =
     (truthy (case source c of None \<Rightarrow> None | Some src \<Rightarrow> uri src) \<or> truthy (source_url c))"

definition spec_flag :: "claim \<Rightarrow> absence_flag" where
  "spec_flag c =
     \<lparr>flag_claim_id = (case claim_id c of None \<Rightarrow> ''?'' | Some i \<Rightarrow> i),
      flag_type = ''ABSENCE_ASSERTION'',
      matched_phrase = first_phrase c,
      detail = ''Claim asserts absence of evidence but provides no source URI.''\<rparr>"

definition spec_flagged :: "claim \<Rightarrow> bool" where
  "spec_flagged c = (contains_absence_phrase c \<and> \<not> has_source_uri c)"

section \<open>Artifacts and the run\<close>

subsection \<open>List objects\<close>

text \<open>
  Python lists are objects: \<open>list(xs)\<close> makes a new one and \<open>append\<close> writes into the
  one it is called on. The heap maps a reference to the list stored there; \<open>next_ref\<close> is
  the first reference not yet handed out.
\<close>

record heap =
  cells :: "ref \<Rightarrow> string list option"
  next_ref :: ref

definition deref :: "heap \<Rightarrow> ref \<Rightarrow> string list" where
  "deref h r = (case cells h r of None \<Rightarrow> [] | Some xs \<Rightarrow> xs)"

definition alloc :: "string list \<Rightarrow> heap \<Rightarrow> ref \<times> heap" where
  "alloc xs h = (next_ref h, \<lparr>cells = (cells h)(next_ref h \<mapsto> xs), next_ref = Suc (next_ref h)\<rparr>)"

definition list_append :: "ref \<Rightarrow> string \<Rightarrow> heap \<Rightarrow> heap" where
  "list_append r x h = h\<lparr>cells := (cells h)(r \<mapsto> deref h r @ [x])\<rparr>"

subsection \<open>Claim identifiers\<close>

text \<open>\<open>f"{i:03d}"\<close>: at least three characters, zeros between the sign and the digits.\<close>

definition zfill :: "nat \<Rightarrow> string \<Rightarrow> string" where
  "zfill w s = replicate (w - length s) (CHR ''0'') @ s"

definition format_03d :: "int \<Rightarrow> string" where
  "format_03d i = (if i < 0 then CHR ''-'' # zfill 2 (str_int (- i)) else zfill 3 (str_int i))"

text \<open>
  The first loop of \<open>run_pipeline\<close>: \<open>c["claim_id"] = f"CLM-{i:03d}"\<close> for every claim
  without the key, written into the claim object itself. The function returns the claim
  objects as the loop leaves them.
\<close>

fun assign_claim_ids :: "int \<Rightarrow> claim list \<Rightarrow> claim list" where
  "assign_claim_ids i [] = []"
| "assign_claim_ids i (c # cs) =
     (if claim_id c = None then c\<lparr>claim_id := Some (''CLM-'' @ format_03d i)\<rparr> else c)
       # assign_claim_ids (i + 1) cs"

subsection \<open>evidence.json\<close>

definition PIPELINE_VERSION :: string where
  "PIPELINE_VERSION = ''HKP-1.1''"

record evidence_entry =
  ent_claim_id :: string
  ent_claim_text :: string
  ent_evidence_type :: string
  ent_source :: source
  ent_confidence :: rat
  ent_claim_flags :: ref
  ent_notes :: string

record evidence =
  ev_report_id :: string
  ev_generated_at :: string
  ev_pipeline_version :: string
  ev_inferred_ratio :: rat
  ev_entries :: "evidence_entry list"

text \<open>
  The loop of \<open>build_evidence_json\<close>, with its counter, the list \<open>entries\<close> and the heap.
  \<open>list(claim.get("claim_flags", []) or [])\<close> allocates; \<open>claim_flags.append\<close> writes
  into the list just allocated.
\<close>

fun build_entries ::
  "int \<Rightarrow> claim list \<Rightarrow> string set \<Rightarrow> string \<Rightarrow> evidence_entry list \<Rightarrow> heap
     \<Rightarrow> evidence_entry list \<times> heap" where
  "build_entries i [] absence_flag_ids now entries h = (entries, h)"
| "build_entries i (c # cs) absence_flag_ids now entries h =
     (let cid = (case claim_id c of None \<Rightarrow> ''CLM-'' @ format_03d i | Some x \<Rightarrow> x);
          ev_type = (case evidence_type c of None \<Rightarrow> ''INFERRED'' | Some t \<Rightarrow> t);
          (flags, h1) = alloc (case claim_flags c of None \<Rightarrow> [] | Some r \<Rightarrow> deref h r) h;
          h2 = (if cid \<in> absence_flag_ids then list_append flags ''ABSENCE_ASSERTION'' h1 else h1);
          src = (case source c of
                   None \<Rightarrow> \<lparr>src_type = Some ''MODEL_REASONING'', uri = None,
                             src_title = Some ''AI-generated inference'', retrieved_at = Some now,
                             excerpt = Some (take 120 (case claim_text c of None \<Rightarrow> [] | Some t \<Rightarrow> t))\<rparr>
                 | Some s \<Rightarrow> s);
          entry = \<lparr>ent_claim_id = cid,
                   ent_claim_text = (case claim_text c of None \<Rightarrow> [] | Some t \<Rightarrow> t),
                   ent_evidence_type = ev_type,
                   ent_source = src,
                   ent_confidence = (case confidence c of None \<Rightarrow> 0.5 | Some x \<Rightarrow> x),
                   ent_claim_flags = flags,
                   ent_notes = (case claim_notes c of None \<Rightarrow> [] | Some n \<Rightarrow> n)\<rparr>
      in build_entries (i + 1) cs absence_flag_ids now (entries @ [entry]) h2)"

definition build_evidence_json ::
  "string \<Rightarrow> claim list \<Rightarrow> string set \<Rightarrow> rat \<Rightarrow> string \<Rightarrow> heap \<Rightarrow> evidence \<times> heap" where
  "build_evidence_json report_id cs absence_flag_ids inferred_ratio now h =
     (let (entries, h') = build_entries 1 cs absence_flag_ids now [] h
      in (\<lparr>ev_report_id = report_id, ev_generated_at = now,
           ev_pipeline_version = PIPELINE_VERSION, ev_inferred_ratio = inferred_ratio,
           ev_entries = entries\<rparr>, h'))"

subsection \<open>JSON values\<close>

text \<open>
  Values that the engine passes through or reads back. An object is the list of its
  items; \<open>subscript v k\<close> is \<open>v[k]\<close> for a string \<open>k\<close>, \<open>None\<close> where Python raises
  (KeyError on an object without the key, TypeError on everything that is not an object).
\<close>

datatype json = JNull | JBool bool | JNum rat | JStr string | JArr "json list"
  | JObj "(string \<times> json) list"

definition subscript :: "json \<Rightarrow> string \<Rightarrow> json option" where
  "subscript v k = (case v of JObj items \<Rightarrow> map_of items k | _ \<Rightarrow> None)"

subsection \<open>sci_score.json\<close>

record sci_score =
  sci_report_id :: string
  sci_generated_at :: string
  sci_pipeline_version :: string
  sci_dimensions :: dims
  sci_evid_raw :: rat
  sci_evid_effective :: rat
  sci_hci :: rat
  sci_inferred_ratio :: rat
  sci_certification_level :: cert_level
  sci_evid_ceiling_applied :: "string option"
  sci_flags :: "string list"
  sci_hallucination_flags :: "json list"
  sci_absence_assertion_flags :: "absence_flag list"
  sci_extra :: extra_fields

definition copy_dimension :: "dimension \<Rightarrow> dimension" where
  "copy_dimension d = \<lparr>score = score d, rationale = Some (case rationale d of None \<Rightarrow> [] | Some r \<Rightarrow> r)\<rparr>"

definition build_sci_score_json ::
  "string \<Rightarrow> dims \<Rightarrow> rat \<Rightarrow> rat \<Rightarrow> rat \<Rightarrow> cert_level \<Rightarrow> extra_fields \<Rightarrow> rat \<Rightarrow> string option
     \<Rightarrow> json list \<Rightarrow> absence_flag list \<Rightarrow> string \<Rightarrow> sci_score" where
  "build_sci_score_json report_id ds evid_raw evid_effective hci cert_level cert_extra
       inferred_ratio ceiling_note hallucination_flags absence_flags now =
     (let all_flags = map flag_type absence_flags;
          all_flags = (if hallucination_flags \<noteq> [] then all_flags @ [''HALLUCINATION_DETECTED'']
                       else all_flags)
      in \<lparr>sci_report_id = report_id, sci_generated_at = now,
          sci_pipeline_version = PIPELINE_VERSION,
          sci_dimensions = \<lparr>EVID = copy_dimension (EVID ds), MECH = copy_dimension (MECH ds),
                              INC = copy_dimension (INC ds), RISK = copy_dimension (RISK ds),
                              SPEC = copy_dimension (SPEC ds)\<rparr>,
          sci_evid_raw = evid_raw, sci_evid_effective = evid_effective, sci_hci = hci,
          sci_inferred_ratio = inferred_ratio, sci_certification_level = cert_level,
          sci_evid_ceiling_applied = ceiling_note, sci_flags = all_flags,
          sci_hallucination_flags = hallucination_flags,
          sci_absence_assertion_flags = absence_flags, sci_extra = cert_extra\<rparr>)"

subsection \<open>Identifiers\<close>

text \<open>
  The clock and the random suffixes are inputs of a run: \<open>env\<close> holds what
  \<open>datetime.now\<close> and \<open>random.choices\<close> return during it.
\<close>

record env =
  env_now :: string
  env_year :: int
  env_audit_year :: int
  env_ledger_ts :: int
  rand_report :: string
  rand_audit :: string
  rand_ledger :: string

definition make_report_id :: "int \<Rightarrow> string \<Rightarrow> string" where
  "make_report_id year rnd = ''HK-'' @ str_int year @ ''-'' @ rnd"

definition make_audit_id :: "int \<Rightarrow> string \<Rightarrow> string" where
  "make_audit_id year rnd = ''AUD-'' @ str_int year @ ''-'' @ rnd"

definition make_ledger_id :: "int \<Rightarrow> string \<Rightarrow> string" where
  "make_ledger_id ts rnd = ''LED-'' @ str_int ts @ ''-'' @ rnd"

subsection \<open>Ledger\<close>

record ledger_entry =
  entry_id :: string
  timestamp :: string
  led_report_id :: string
  led_audit_id :: string
  event_type :: string
  led_certification_level :: cert_level
  led_hci :: rat
  led_evid_effective :: rat
  led_inferred_ratio :: rat
  author_model :: string
  human_reviewer :: "string option"
  led_notes :: string
  prev_entry_id :: json

definition build_ledger_entry ::
  "string \<Rightarrow> string \<Rightarrow> cert_level \<Rightarrow> rat \<Rightarrow> rat \<Rightarrow> rat \<Rightarrow> string \<Rightarrow> json \<Rightarrow> string \<Rightarrow> string
     \<Rightarrow> ledger_entry" where
  "build_ledger_entry report_id audit_id cert_level hci evid_effective inferred_ratio
       author_model_name prev_id now ledger_id =
     \<lparr>entry_id = ledger_id, timestamp = now, led_report_id = report_id,
      led_audit_id = audit_id, event_type = ''CREATED'', led_certification_level = cert_level,
      led_hci = hci, led_evid_effective = evid_effective, led_inferred_ratio = inferred_ratio,
      author_model = author_model_name, human_reviewer = None,
      led_notes = ''Initial pipeline run.'', prev_entry_id = prev_id\<rparr>"

text \<open>
  \<open>str.strip\<close> and \<open>str.splitlines\<close> on code points below 256: the white space that
  \<open>strip\<close> removes at both ends, and the line boundaries at which \<open>splitlines\<close> cuts
  (\<open>\r\n\<close> counting as one).
\<close>

definition is_space :: "char \<Rightarrow> bool" where
  "is_space c = ((of_char c :: nat) \<in> set [9, 10, 11, 12, 13, 28, 29, 30, 31, 32, 133, 160])"

definition is_linebreak :: "char \<Rightarrow> bool" where
  "is_linebreak c = ((of_char c :: nat) \<in> set [10, 11, 12, 13, 28, 29, 30, 133])"

definition strip :: "string \<Rightarrow> string" where
  "strip s = rev (dropWhile is_space (rev (dropWhile is_space s)))"

fun split_lines :: "string \<Rightarrow> string \<Rightarrow> string list" where
  "split_lines cur [] = (if cur = [] then [] else [cur])"
| "split_lines cur [c] = (if is_linebreak c then [cur] else [cur @ [c]])"
| "split_lines cur (c # d # ds) =
     (if c = CHR 0x0D \<and> d = CHR 0x0A then cur # split_lines [] ds
      else if is_linebreak c then cur # split_lines [] (d # ds)
      else split_lines (cur @ [c]) (d # ds))"

definition splitlines :: "string \<Rightarrow> string list" where
  "splitlines s = split_lines [] s"

text \<open>
  Step 5 of \<open>run_pipeline\<close> up to the call of \<open>build_ledger_entry\<close>. The ledger file is
  its text, \<open>None\<close> when the file does not exist. \<open>loads\<close> is \<open>json.loads\<close>, a parameter:
  \<open>None\<close> where it raises. Every exception of \<open>json.loads(lines[-1])["entry_id"]\<close> is
  caught by \<open>except Exception: pass\<close>, which leaves \<open>prev_id\<close> at \<open>None\<close> (here \<open>JNull\<close>).
\<close>

definition read_prev_id :: "(string \<Rightarrow> json option) \<Rightarrow> string option \<Rightarrow> json" where
  "read_prev_id loads ledger =
     (case ledger of
        None \<Rightarrow> JNull
      | Some content \<Rightarrow>
          (let lines = splitlines (strip content)
           in if lines \<noteq> [] then
                (case loads (last lines) of
                   None \<Rightarrow> JNull
                 | Some v \<Rightarrow> (case subscript v ''entry_id'' of None \<Rightarrow> JNull | Some e \<Rightarrow> e))
              else JNull))"

subsection \<open>The run\<close>

record author =
  model_version :: "string option"

record input =
  title :: "string option"
  topic :: "string option"
  summary :: "string option"
  claims :: "claim list option"
  dimensions :: "dims option"
  hallucination_flags :: "json list option"
  author_info :: "author option"

datatype error = KeyError string

record run_result =
  res_report_id :: string
  res_certification_level :: cert_level
  res_hci :: rat
  res_evid_raw :: rat
  res_evid_effective :: rat
  res_inferred_ratio :: rat
  res_flags :: "string list"

text \<open>
  What a run leaves behind: the claim objects of the loaded input, the heap of list
  objects, the two JSON artifacts whose content the properties below read, and the text of
  the ledger file.
\<close>

record world =
  mem_claims :: "claim list"
  mem_heap :: heap
  evidence_json :: "evidence option"
  sci_score_json :: "sci_score option"
  ledger_jsonl :: "string option"

definition default_dims :: dims where
  "default_dims =
     \<lparr>EVID = \<lparr>score = 5.0, rationale = Some ''Default.''\<rparr>,
      MECH = \<lparr>score = 5.0, rationale = Some ''Default.''\<rparr>,
      INC = \<lparr>score = 5.0, rationale = Some ''Default.''\<rparr>,
      RISK = \<lparr>score = 5.0, rationale = Some ''Default.''\<rparr>,
      SPEC = \<lparr>score = 5.0, rationale = Some ''Default.''\<rparr>\<rparr>"

text \<open>
  \<open>run_pipeline\<close>, from the loaded input \<open>inp\<close> on. \<open>loads\<close> and \<open>dumps\<close> are the two
  functions of the \<open>json\<close> module the ledger step calls; \<open>h\<close> is the heap holding the
  input's flag lists and \<open>ledger\<close> the ledger file before the run. The report and the
  audit record are rendered from the values computed here and change none of them; they
  are not part of the model, apart from \<open>inp["title"]\<close>, which raises KeyError on an
  input without a title, after the first two artifacts are written and before the ledger
  is touched. Failures of the file system are outside the model.
\<close>

definition run_pipeline ::
  "(string \<Rightarrow> json option) \<Rightarrow> (ledger_entry \<Rightarrow> string) \<Rightarrow> env \<Rightarrow> input \<Rightarrow> string option \<Rightarrow> heap
     \<Rightarrow> string option \<Rightarrow> (error + run_result) \<times> world" where
  "run_pipeline loads dumps e inp run_id h ledger =
     (let now = env_now e;
          year = env_year e;
          report_id = (if truthy run_id then (case run_id of None \<Rightarrow> [] | Some r \<Rightarrow> r)
                       else make_report_id year (rand_report e));
          cs = assign_claim_ids 1 (case claims inp of None \<Rightarrow> [] | Some cs \<Rightarrow> cs);
          ds = (case dimensions inp of None \<Rightarrow> default_dims | Some d \<Rightarrow> d);
          hall_flags = (case hallucination_flags inp of None \<Rightarrow> [] | Some f \<Rightarrow> f);
          author_model_name =
            (case author_info inp of None \<Rightarrow> ''unknown''
             | Some a \<Rightarrow> (case model_version a of None \<Rightarrow> ''unknown'' | Some m \<Rightarrow> m));
          inferred_ratio = compute_inferred_ratio cs;
          evid_raw = score (EVID ds);
          (evid_effective, ceiling_note) = apply_evid_ceiling evid_raw inferred_ratio;
          absence_flags = detect_absence_assertions cs;
          absence_flag_ids = set (map flag_claim_id absence_flags);
          has_absence = (absence_flags \<noteq> []);
          hci = compute_hci ds evid_effective;
          (cert_level, cert_extra) =
            determine_certification_level ds evid_effective hci inferred_ratio hall_flags has_absence;
          (ev, h') = build_evidence_json report_id cs absence_flag_ids inferred_ratio now h;
          sci = build_sci_score_json report_id ds evid_raw evid_effective hci cert_level cert_extra
                  inferred_ratio ceiling_note hall_flags absence_flags now
      in case title inp of
           None \<Rightarrow>
             (Inl (KeyError ''title''),
              \<lparr>mem_claims = cs, mem_heap = h', evidence_json = Some ev,
               sci_score_json = Some sci, ledger_jsonl = ledger\<rparr>)
         | Some t \<Rightarrow>
             (let audit_id = make_audit_id (env_audit_year e) (rand_audit e);
                  prev_id = read_prev_id loads ledger;
                  entry = build_ledger_entry report_id audit_id cert_level hci evid_effective
                            inferred_ratio author_model_name prev_id now
                            (make_ledger_id (env_ledger_ts e) (rand_ledger e));
                  ledger' = (case ledger of None \<Rightarrow> [] | Some old \<Rightarrow> old) @ dumps entry @ [CHR 0x0A]
              in (Inr \<lparr>res_report_id = report_id, res_certification_level = cert_level,
                       res_hci = hci, res_evid_raw = evid_raw,
                       res_evid_effective = evid_effective, res_inferred_ratio = inferred_ratio,
                       res_flags = sci_flags sci\<rparr>,
                  \<lparr>mem_claims = cs, mem_heap = h', evidence_json = Some ev,
                   sci_score_json = Some sci, ledger_jsonl = Some ledger'\<rparr>)))"

section \<open>Definitions used to state the properties\<close>

text \<open>The ordering of the tiers: INSTITUTIONAL > PRO > VERIFIED > REVIEWED > REJECTED.\<close>

definition tier_rank :: "cert_level \<Rightarrow> nat" where
  "tier_rank t =
     (case t of HK_INSTITUTIONAL \<Rightarrow> 4 | HK_PRO \<Rightarrow> 3 | HK_VERIFIED \<Rightarrow> 2 | HK_REVIEWED \<Rightarrow> 1
      | HK_REJECTED \<Rightarrow> 0)"

text \<open>
  The classifier with the condition \<open>evid_effective >= 6.0\<close> deleted from the HK-REVIEWED
  gate, everything else as in \<open>determine_certification_level\<close>.
\<close>

definition classifier_without_reviewed_evid ::
  "dims \<Rightarrow> rat \<Rightarrow> rat \<Rightarrow> rat \<Rightarrow> 'f list \<Rightarrow> bool \<Rightarrow> cert_level \<times> extra_fields" where
  "classifier_without_reviewed_evid ds evid_effective hci inferred_ratio hall_flags
       has_absence_assertions =
     (let spec = score (SPEC ds)
      in if hall_flags \<noteq> [] \<or> evid_effective < 6.0 \<or> hci < 5.5 then (HK_REJECTED, [])
         else if hci \<ge> 8.5 \<and> evid_effective \<ge> 8.2 \<and> inferred_ratio \<le> 0.40 \<and> spec \<ge> 7.5
                 \<and> \<not> has_absence_assertions \<and> \<not> hall_flags \<noteq> []
           then (HK_INSTITUTIONAL, [(''institutional_requires_two_reviews'', True)])
         else if hci \<ge> 7.8 \<and> evid_effective \<ge> 7.6 \<and> inferred_ratio \<le> 0.50 \<and> spec \<ge> 7.0
                 \<and> \<not> has_absence_assertions
           then (HK_PRO, [(''pro_requires_second_review'', True)])
         else if hci \<ge> 7.3 \<and> evid_effective \<ge> 7.2 \<and> inferred_ratio \<le> 0.60 \<and> spec \<ge> 6.5
                 \<and> \<not> has_absence_assertions
           then (HK_VERIFIED, [])
         else if hci \<ge> 6.0 then (HK_REVIEWED, [])
         else (HK_REJECTED, []))"





text \<open>The identifier, the caller's flags and the output flags of the claim at position \<open>i\<close>.\<close>

definition claim_cid :: "int \<Rightarrow> claim \<Rightarrow> string" where
  "claim_cid i c = (case claim_id c of None \<Rightarrow> ''CLM-'' @ format_03d i | Some x \<Rightarrow> x)"

definition caller_flags :: "heap \<Rightarrow> claim \<Rightarrow> string list" where
  "caller_flags h c = (case claim_flags c of None \<Rightarrow> [] | Some r \<Rightarrow> deref h r)"

definition output_flags :: "string set \<Rightarrow> int \<Rightarrow> claim \<Rightarrow> heap \<Rightarrow> string list" where
  "output_flags ids i c h =
     caller_flags h c @ (if claim_cid i c \<in> ids then [''ABSENCE_ASSERTION''] else [])"

definition entry_for :: "int \<Rightarrow> claim \<Rightarrow> string \<Rightarrow> ref \<Rightarrow> evidence_entry" where
  "entry_for i c now r =
     \<lparr>ent_claim_id = claim_cid i c,
      ent_claim_text = (case claim_text c of None \<Rightarrow> [] | Some t \<Rightarrow> t),
      ent_evidence_type = (case evidence_type c of None \<Rightarrow> ''INFERRED'' | Some t \<Rightarrow> t),
      ent_source = (case source c of
                      None \<Rightarrow> \<lparr>src_type = Some ''MODEL_REASONING'', uri = None,
                                src_title = Some ''AI-generated inference'', retrieved_at = Some now,
                                excerpt = Some (take 120 (case claim_text c of None \<Rightarrow> [] | Some t \<Rightarrow> t))\<rparr>
                    | Some s \<Rightarrow> s),
      ent_confidence = (case confidence c of None \<Rightarrow> 0.5 | Some x \<Rightarrow> x),
      ent_claim_flags = r,
      ent_notes = (case claim_notes c of None \<Rightarrow> [] | Some n \<Rightarrow> n)\<rparr>"

text \<open>The claim list a run works on: \<open>inp.get("claims", [])\<close>.\<close>

definition input_claims :: "input \<Rightarrow> claim list" where
  "input_claims inp = (case claims inp of None \<Rightarrow> [] | Some cs \<Rightarrow> cs)"

section \<open>Example inputs\<close>

text \<open>Concrete inputs on which the properties below are evaluated.\<close>

definition dims_all :: "rat \<Rightarrow> dims" where
  "dims_all x =
     \<lparr>EVID = \<lparr>score = x, rationale = None\<rparr>, MECH = \<lparr>score = x, rationale = None\<rparr>,
      INC = \<lparr>score = x, rationale = None\<rparr>, RISK = \<lparr>score = x, rationale = None\<rparr>,
      SPEC = \<lparr>score = x, rationale = None\<rparr>\<rparr>"

definition blank_claim :: claim where
  "blank_claim =
     \<lparr>claim_id = None, claim_text = None, evidence_type = None, source = None,
      source_url = None, confidence = None, claim_flags = None, claim_notes = None\<rparr>"

definition example_input :: "dims option \<Rightarrow> claim list option \<Rightarrow> input" where
  "example_input ds cs =
     \<lparr>title = Some ''Quarterly review'', topic = None, summary = None, claims = cs,
      dimensions = ds, hallucination_flags = None, author_info = None\<rparr>"

definition example_env :: env where
  "example_env =
     \<lparr>env_now = ''2026-01-01T00:00:00Z'', env_year = 2026, env_audit_year = 2026,
      env_ledger_ts = 1767225600000, rand_report = ''ABC123'', rand_audit = ''ABCD1234'',
      rand_ledger = ''XY12''\<rparr>"

definition empty_heap :: heap where
  "empty_heap = \<lparr>cells = (\<lambda>r. None), next_ref = 0\<rparr>"


definition example_heap :: heap where
  "example_heap = \<lparr>cells = (\<lambda>r. if r = 0 then Some [''CALLER_TAG''] else None), next_ref = 1\<rparr>"

definition example_claims :: "claim list" where
  "example_claims =
     [blank_claim\<lparr>claim_text := Some ''There is no audit'', evidence_type := Some ''VERIFIED'',
                   confidence := Some 0.9, claim_flags := Some 0\<rparr>,
      blank_claim\<lparr>claim_id := Some ''X-7'', claim_text := Some ''Revenue grew''\<rparr>]"

section \<open>Properties\<close>

subsection \<open>Auxiliary facts\<close>










lemma find_absence_phrase:
  "List.find (\<lambda>p. sublist p (text_lower_of c)) ABSENCE_PHRASES =
     (if contains_absence_phrase c then Some (first_phrase c) else None)"
  by (simp add: ABSENCE_PHRASES_def contains_absence_phrase_def first_phrase_def)

lemma detect_loop_eq:
  "detect_loop cs acc = acc @ map spec_flag (filter spec_flagged cs)"
proof (induction cs arbitrary: acc)
  case Nil
  then show ?case by simp
next
  case (Cons c cs)
  have t: "lower (case claim_text c of None \<Rightarrow> [] | Some t \<Rightarrow> t) = text_lower_of c"
    by (simp add: text_lower_of_def)
  have fp: "contains_absence_phrase c \<Longrightarrow> first_phrase c \<noteq> []"
    by (auto simp: first_phrase_def)
  show ?case
    by (simp add: Cons.IH t find_absence_phrase Let_def truthy_def py_or_def spec_flagged_def
        has_source_uri_def spec_flag_def fp split: option.splits)
qed











lemma assign_claim_ids_length: "length (assign_claim_ids i cs) = length cs"
  by (induction cs arbitrary: i) auto

lemma assign_claim_ids_nth:
  "k < length cs \<Longrightarrow>
     assign_claim_ids i cs ! k =
       (if claim_id (cs ! k) = None
        then (cs ! k)\<lparr>claim_id := Some (''CLM-'' @ format_03d (i + int k))\<rparr>
        else cs ! k)"
proof (induction cs arbitrary: i k)
  case Nil
  then show ?case by simp
next
  case (Cons c cs)
  show ?case
  proof (cases k)
    case 0
    then show ?thesis by simp
  next
    case (Suc j)
    with Cons.prems have "j < length cs" by simp
    from Cons.IH [OF this, of "i + 1"] Suc show ?thesis by (simp add: add.assoc)
  qed
qed

lemma build_entries_Cons:
  "build_entries i (c # cs) ids now acc h =
     build_entries (i + 1) cs ids now (acc @ [entry_for i c now (next_ref h)])
       \<lparr>cells = (cells h)(next_ref h \<mapsto> output_flags ids i c h), next_ref = Suc (next_ref h)\<rparr>"
  by (simp add: alloc_def list_append_def deref_def entry_for_def claim_cid_def output_flags_def
      caller_flags_def Let_def)

lemma caller_flags_frame:
  assumes "\<forall>r. claim_flags c = Some r \<longrightarrow> r < n" and "\<forall>r<n. cells h' r = cells h r"
  shows "caller_flags h' c = caller_flags h c"
  using assms by (auto simp: caller_flags_def deref_def split: option.splits)

lemma build_entries_spec:
  assumes "build_entries i cs ids now acc h = (es, h')"
    and "\<forall>c\<in>set cs. \<forall>r. claim_flags c = Some r \<longrightarrow> r < next_ref h"
  shows "next_ref h' = next_ref h + length cs \<and>
         (\<forall>r<next_ref h. cells h' r = cells h r) \<and>
         length es = length acc + length cs \<and>
         (\<forall>k<length acc. es ! k = acc ! k) \<and>
         (\<forall>k<length cs.
            es ! (length acc + k) = entry_for (i + int k) (cs ! k) now (next_ref h + k) \<and>
            cells h' (next_ref h + k) = Some (output_flags ids (i + int k) (cs ! k) h))"
  using assms
proof (induction cs arbitrary: i acc h)
  case Nil
  then show ?case by simp
next
  case (Cons c cs)
  let ?h2 = "\<lparr>cells = (cells h)(next_ref h \<mapsto> output_flags ids i c h), next_ref = Suc (next_ref h)\<rparr>"
  let ?acc2 = "acc @ [entry_for i c now (next_ref h)]"
  from Cons.prems(1) have run: "build_entries (i + 1) cs ids now ?acc2 ?h2 = (es, h')"
    by (simp only: build_entries_Cons)
  from Cons.prems(2) have wf2: "\<forall>c\<in>set cs. \<forall>r. claim_flags c = Some r \<longrightarrow> r < next_ref ?h2"
    by (simp add: less_Suc_eq)
  note ih = Cons.IH [OF run wf2]
  from ih have nr: "next_ref h' = next_ref h + length (c # cs)" by simp
  from ih have fr2: "\<forall>r<Suc (next_ref h). cells h' r = cells ?h2 r" by simp
  then have fr: "\<forall>r<next_ref h. cells h' r = cells h r" by simp
  from ih have len: "length es = length acc + length (c # cs)" by simp
  from ih have old2: "\<forall>k<Suc (length acc). es ! k = ?acc2 ! k" by simp
  then have old: "\<forall>k<length acc. es ! k = acc ! k" by (simp add: nth_append)
  from old2 have e0: "es ! length acc = entry_for i c now (next_ref h)"
    by (auto simp: nth_append dest: spec [of _ "length acc"])
  from fr2 have c0: "cells h' (next_ref h) = Some (output_flags ids i c h)"
    by (auto dest: spec [of _ "next_ref h"])
  from ih have new2: "\<forall>k<length cs.
            es ! (Suc (length acc) + k) = entry_for (i + 1 + int k) (cs ! k) now (Suc (next_ref h) + k) \<and>
            cells h' (Suc (next_ref h) + k) = Some (output_flags ids (i + 1 + int k) (cs ! k) ?h2)"
    by simp
  have of2: "output_flags ids j (cs ! k) ?h2 = output_flags ids j (cs ! k) h" if "k < length cs" for j k
  proof -
    from that have "cs ! k \<in> set cs" by simp
    with Cons.prems(2) have "\<forall>r. claim_flags (cs ! k) = Some r \<longrightarrow> r < next_ref h" by simp
    then have "caller_flags ?h2 (cs ! k) = caller_flags h (cs ! k)"
      by (rule caller_flags_frame) simp
    then show ?thesis by (simp add: output_flags_def)
  qed
  have new: "\<forall>k<length (c # cs).
            es ! (length acc + k) = entry_for (i + int k) ((c # cs) ! k) now (next_ref h + k) \<and>
            cells h' (next_ref h + k) = Some (output_flags ids (i + int k) ((c # cs) ! k) h)"
  proof (intro allI impI)
    fix k assume k: "k < length (c # cs)"
    show "es ! (length acc + k) = entry_for (i + int k) ((c # cs) ! k) now (next_ref h + k) \<and>
            cells h' (next_ref h + k) = Some (output_flags ids (i + int k) ((c # cs) ! k) h)"
    proof (cases k)
      case 0
      with e0 c0 show ?thesis by simp
    next
      case (Suc j)
      with k have j: "j < length cs" by simp
      from new2 j have "es ! (Suc (length acc) + j) = entry_for (i + 1 + int j) (cs ! j) now (Suc (next_ref h) + j) \<and>
            cells h' (Suc (next_ref h) + j) = Some (output_flags ids (i + 1 + int j) (cs ! j) ?h2)"
        by blast
      with of2 [OF j] Suc show ?thesis by (simp add: ac_simps)
    qed
  qed
  from nr fr len old new show ?case by blast
qed

lemma assign_claim_ids_flags:
  "(\<forall>c\<in>set cs. \<forall>r. claim_flags c = Some r \<longrightarrow> r < n) \<Longrightarrow>
     \<forall>c\<in>set (assign_claim_ids i cs). \<forall>r. claim_flags c = Some r \<longrightarrow> r < n"
  by (induction cs arbitrary: i) auto

lemma run_pipeline_memory:
  "\<exists>rid ratio.
     mem_claims (snd (run_pipeline loads dumps e inp run_id h ledger))
       = assign_claim_ids 1 (input_claims inp) \<and>
     evidence_json (snd (run_pipeline loads dumps e inp run_id h ledger))
       = Some (fst (build_evidence_json rid (assign_claim_ids 1 (input_claims inp))
                 (set (map flag_claim_id
                    (detect_absence_assertions (assign_claim_ids 1 (input_claims inp)))))
                 ratio (env_now e) h)) \<and>
     mem_heap (snd (run_pipeline loads dumps e inp run_id h ledger))
       = snd (build_evidence_json rid (assign_claim_ids 1 (input_claims inp))
                 (set (map flag_claim_id
                    (detect_absence_assertions (assign_claim_ids 1 (input_claims inp)))))
                 ratio (env_now e) h)"
proof (cases "title inp")
  case None
  then show ?thesis
    by (simp add: run_pipeline_def Let_def split_beta input_claims_def) blast
next
  case (Some t)
  then show ?thesis
    by (simp add: run_pipeline_def Let_def split_beta input_claims_def) blast
qed

subsection \<open>Evidence ceiling\<close>

text \<open>
  C2. For every raw EVID score and every inferred ratio, the effective score returned by
  \<open>apply_evid_ceiling\<close> is \<open>min(raw, 6.5)\<close> when the ratio is above 0.75, \<open>min(raw, 7.2)\<close>
  when the ratio is above 0.60 and at most 0.75, and the raw score otherwise, that is when
  the ratio is at most 0.60. Hence the effective score never exceeds the raw one.
\<close>

theorem evid_ceiling_cases:
  "(ratio > 0.75 \<longrightarrow> fst (apply_evid_ceiling raw ratio) = min raw 6.5) \<and>
   (0.60 < ratio \<and> ratio \<le> 0.75 \<longrightarrow> fst (apply_evid_ceiling raw ratio) = min raw 7.2) \<and>
   (ratio \<le> 0.60 \<longrightarrow> fst (apply_evid_ceiling raw ratio) = raw) \<and>
   fst (apply_evid_ceiling raw ratio) \<le> raw"
  by (simp add: apply_evid_ceiling_def Let_def)

theorem evid_ceiling_cases_witness:
  "(0.75::rat) < 0.8 \<and> fst (apply_evid_ceiling 9 0.8) = 6.5 \<and>
   (0.60::rat) < 0.7 \<and> (0.7::rat) \<le> 0.75 \<and> fst (apply_evid_ceiling 9 0.7) = 7.2 \<and>
   (0.5::rat) \<le> 0.60 \<and> fst (apply_evid_ceiling 9 0.5) = 9 \<and>
   fst (apply_evid_ceiling 5 0.8) = 5"
  using evid_ceiling_cases [of "0.8" 9] evid_ceiling_cases [of "0.7" 9] evid_ceiling_cases [of "0.5" 9]
    evid_ceiling_cases [of "0.8" 5]
  by simp

text \<open>
  C5, as the code has it. When the ratio is above 0.60 and the raw score is at or below the
  cap that applies, the effective score is the raw score, and the ceiling note is produced
  all the same: it names the cap and the ratio with four decimals. The note is absent
  exactly when the ratio is at most 0.60.
\<close>

theorem evid_ceiling_below_cap:
  "(ratio > 0.75 \<and> raw \<le> 6.5 \<longrightarrow>
      apply_evid_ceiling raw ratio =
        (raw, Some (''EVID capped at 6.5 (inferred_ratio='' @ format_4f ratio @ '' > 0.75)''))) \<and>
   (0.60 < ratio \<and> ratio \<le> 0.75 \<and> raw \<le> 7.2 \<longrightarrow>
      apply_evid_ceiling raw ratio =
        (raw, Some (''EVID capped at 7.2 (inferred_ratio='' @ format_4f ratio @ '' > 0.60)''))) \<and>
   (snd (apply_evid_ceiling raw ratio) = None \<longleftrightarrow> ratio \<le> 0.60)"
  by (auto simp: apply_evid_ceiling_def Let_def)

theorem evid_ceiling_below_cap_witness:
  "(0.75::rat) < 1 \<and> (5::rat) \<le> 6.5 \<and>
   apply_evid_ceiling 5 1 = (5, Some ''EVID capped at 6.5 (inferred_ratio=1.0000 > 0.75)'') \<and>
   (0.60::rat) < 0.7 \<and> (0.7::rat) \<le> 0.75 \<and> (7::rat) \<le> 7.2 \<and>
   apply_evid_ceiling 7 0.7 = (7, Some ''EVID capped at 7.2 (inferred_ratio=0.7000 > 0.60)'')"
proof -
  have a: "format_4f 1 = ''1.0000''" by code_simp
  have b: "format_4f 0.7 = ''0.7000''" by code_simp
  show ?thesis
    using evid_ceiling_below_cap [of 1 5] evid_ceiling_below_cap [of "0.7" 7] a b by simp
qed

text \<open>
  C5, as the specification states it, fails: with the default raw score 5.0 and the ratio
  1.0 of an empty claim list, the ratio is above 0.60, the raw score is below the cap 6.5,
  the effective score is the raw score, and a ceiling note is produced.
\<close>

theorem evid_ceiling_note_counterexample:
  "(0.60::rat) < 1 \<and> (5::rat) < 6.5 \<and> fst (apply_evid_ceiling 5 1) = 5 \<and>
   snd (apply_evid_ceiling 5 1) \<noteq> None \<and>
   snd (apply_evid_ceiling 5 1) = Some ''EVID capped at 6.5 (inferred_ratio=1.0000 > 0.75)''"
proof -
  have "apply_evid_ceiling 5 1 = (5, Some ''EVID capped at 6.5 (inferred_ratio=1.0000 > 0.75)'')"
    by code_simp
  then show ?thesis by simp
qed

subsection \<open>Composite index\<close>



subsection \<open>Certification classifier\<close>

text \<open>
  C1. Rejection gate: whenever the hallucination-flag list is non-empty, or effective
  EVID is below 6.0, or the composite index is below 5.5, the classifier returns
  HK-REJECTED with an empty extra-fields dict, whatever the other scores are.
\<close>

theorem rejected_gate_dominates:
  assumes "hall_flags \<noteq> [] \<or> evid_effective < 6.0 \<or> hci < 5.5"
  shows "determine_certification_level ds evid_effective hci inferred_ratio hall_flags
           has_absence_assertions = (HK_REJECTED, [])"
  using assms by (simp add: determine_certification_level_def)

theorem rejected_gate_dominates_witness:
  "[''fabricated citation''] \<noteq> [] \<and>
   determine_certification_level
     \<lparr>EVID = \<lparr>score = 9, rationale = None\<rparr>, MECH = \<lparr>score = 9, rationale = None\<rparr>,
      INC = \<lparr>score = 9, rationale = None\<rparr>, RISK = \<lparr>score = 9, rationale = None\<rparr>,
      SPEC = \<lparr>score = 9, rationale = None\<rparr>\<rparr>
     9 9 0 [''fabricated citation''] False = (HK_REJECTED, [])"
  using rejected_gate_dominates
    [of "[''fabricated citation'']" 9 9
        "\<lparr>EVID = \<lparr>score = 9, rationale = None\<rparr>, MECH = \<lparr>score = 9, rationale = None\<rparr>,
          INC = \<lparr>score = 9, rationale = None\<rparr>, RISK = \<lparr>score = 9, rationale = None\<rparr>,
          SPEC = \<lparr>score = 9, rationale = None\<rparr>\<rparr>" 0 False]
  by simp

text \<open>
  C4. Gate monotonicity. Two classifier inputs with the same SPEC score, inferred ratio,
  hallucination-flag list and absence boolean: if the second has effective EVID and
  composite index at least those of the first, its tier is at least the tier of the first
  in the ordering INSTITUTIONAL > PRO > VERIFIED > REVIEWED > REJECTED.
\<close>

theorem tier_monotone:
  assumes "score (SPEC ds1) = score (SPEC ds2)" and "e1 \<le> e2" and "h1 \<le> h2"
  shows "tier_rank (fst (determine_certification_level ds1 e1 h1 r fl ab))
           \<le> tier_rank (fst (determine_certification_level ds2 e2 h2 r fl ab))"
  using assms
  by (auto simp: determine_certification_level_def tier_rank_def Let_def)

theorem tier_monotone_witness:
  "score (SPEC (dims_all 9)) = score (SPEC (dims_all 9)) \<and> (6::rat) \<le> 9 \<and>
   determine_certification_level (dims_all 9) 6 6 0 ([]::json list) False = (HK_REVIEWED, []) \<and>
   determine_certification_level (dims_all 9) 9 9 0 ([]::json list) False
     = (HK_INSTITUTIONAL, [(''institutional_requires_two_reviews'', True)]) \<and>
   tier_rank (fst (determine_certification_level (dims_all 9) 6 6 0 ([]::json list) False))
     \<le> tier_rank (fst (determine_certification_level (dims_all 9) 9 9 0 ([]::json list) False))"
proof -
  have a: "determine_certification_level (dims_all 9) 6 6 0 ([]::json list) False = (HK_REVIEWED, [])"
    by (simp add: determine_certification_level_def dims_all_def)
  have b: "determine_certification_level (dims_all 9) 9 9 0 ([]::json list) False
     = (HK_INSTITUTIONAL, [(''institutional_requires_two_reviews'', True)])"
    by (simp add: determine_certification_level_def dims_all_def)
  have c: "(6::rat) \<le> 9" by simp
  show ?thesis
    using tier_monotone [OF refl c c, of "dims_all 9" 0 "[]::json list" False] a b
    by simp
qed

text \<open>
  C9. The condition \<open>evid_effective >= 6.0\<close> of the HK-REVIEWED gate decides nothing: the
  classifier without it returns the same tier and the same extra fields on every input.
  An input that passes the HK-REJECTED gate (no hallucination flag, effective EVID at
  least 6.0, composite index at least 5.5) with a composite index below 6.0 ends at the
  terminal default, HK-REJECTED with no extra fields.
\<close>

theorem reviewed_evid_condition_redundant:
  "classifier_without_reviewed_evid ds ev h r fl ab
     = determine_certification_level ds ev h r fl ab \<and>
   (fl = [] \<and> 6.0 \<le> ev \<and> 5.5 \<le> h \<and> h < 6.0 \<longrightarrow>
      determine_certification_level ds ev h r fl ab = (HK_REJECTED, []))"
  by (auto simp: classifier_without_reviewed_evid_def determine_certification_level_def Let_def)

theorem reviewed_evid_condition_redundant_witness:
  "([]::json list) = [] \<and> (6.0::rat) \<le> 9 \<and> (5.5::rat) \<le> 5.8 \<and> (5.8::rat) < 6.0 \<and>
   determine_certification_level (dims_all 5) 9 5.8 0 ([]::json list) False = (HK_REJECTED, []) \<and>
   classifier_without_reviewed_evid (dims_all 5) 9 5.8 0 ([]::json list) False = (HK_REJECTED, [])"
  using reviewed_evid_condition_redundant [of "dims_all 5" 9 "5.8" 0 "[]::json list" False]
  by simp

subsection \<open>Absence assertions\<close>

text \<open>
  C6. \<open>detect_absence_assertions\<close> returns, in the order of the claims, one flag for
  every claim whose lower-cased text contains one of the four phrases and that has
  neither a truthy nested source URI nor a truthy top-level \<open>source_url\<close>; the flag
  reports the first phrase, in listed order, that the text contains. A single claim is
  flagged if and only if both conditions hold, so a claim with a source URI is never
  flagged.
\<close>

theorem absence_flags_characterised:
  "detect_absence_assertions cs = map spec_flag (filter spec_flagged cs) \<and>
   (detect_absence_assertions [c] \<noteq> [] \<longleftrightarrow> contains_absence_phrase c \<and> \<not> has_source_uri c) \<and>
   (has_source_uri c \<longrightarrow> detect_absence_assertions [c] = [])"
  by (simp add: detect_absence_assertions_def detect_loop_eq spec_flagged_def)

theorem absence_flags_characterised_witness:
  "detect_absence_assertions
     [blank_claim\<lparr>claim_id := Some ''CLM-001'', claim_text := Some ''No public audit exists''\<rparr>,
      blank_claim\<lparr>claim_id := Some ''CLM-002'', claim_text := Some ''There is no audit and no evidence found'',
                   source_url := Some ''https://example.org/report''\<rparr>,
      blank_claim\<lparr>claim_text := Some ''NO AUDIT, no third-party audit''\<rparr>,
      blank_claim\<lparr>claim_id := Some ''CLM-004'', claim_text := Some ''Revenue grew''\<rparr>]
   = [\<lparr>flag_claim_id = ''CLM-001'', flag_type = ''ABSENCE_ASSERTION'',
       matched_phrase = ''no public audit'',
       detail = ''Claim asserts absence of evidence but provides no source URI.''\<rparr>,
      \<lparr>flag_claim_id = ''?'', flag_type = ''ABSENCE_ASSERTION'',
       matched_phrase = ''no third-party audit'',
       detail = ''Claim asserts absence of evidence but provides no source URI.''\<rparr>] \<and>
   has_source_uri (blank_claim\<lparr>claim_text := Some ''There is no audit'',
                     source_url := Some ''https://example.org/report''\<rparr>) \<and>
   detect_absence_assertions
     [blank_claim\<lparr>claim_text := Some ''There is no audit'',
                   source_url := Some ''https://example.org/report''\<rparr>] = []"
proof -
  let ?cs = "[blank_claim\<lparr>claim_id := Some ''CLM-001'', claim_text := Some ''No public audit exists''\<rparr>,
      blank_claim\<lparr>claim_id := Some ''CLM-002'', claim_text := Some ''There is no audit and no evidence found'',
                   source_url := Some ''https://example.org/report''\<rparr>,
      blank_claim\<lparr>claim_text := Some ''NO AUDIT, no third-party audit''\<rparr>,
      blank_claim\<lparr>claim_id := Some ''CLM-004'', claim_text := Some ''Revenue grew''\<rparr>]"
  let ?c = "blank_claim\<lparr>claim_text := Some ''There is no audit'',
                     source_url := Some ''https://example.org/report''\<rparr>"
  have a: "map spec_flag (filter spec_flagged ?cs)
     = [\<lparr>flag_claim_id = ''CLM-001'', flag_type = ''ABSENCE_ASSERTION'',
       matched_phrase = ''no public audit'',
       detail = ''Claim asserts absence of evidence but provides no source URI.''\<rparr>,
      \<lparr>flag_claim_id = ''?'', flag_type = ''ABSENCE_ASSERTION'',
       matched_phrase = ''no third-party audit'',
       detail = ''Claim asserts absence of evidence but provides no source URI.''\<rparr>]"
    by code_simp
  have b: "has_source_uri ?c" by code_simp
  show ?thesis
    using absence_flags_characterised [of ?cs ?c] a b by simp
qed

subsection \<open>Inferred ratio\<close>



subsection \<open>Ledger back-reference\<close>



subsection \<open>Claim records\<close>

text \<open>
  C10, as the code has it. The only write of a run to a claim record of the input is the
  assignment of \<open>claim_id\<close> to a record without one, made in place by the first loop of
  \<open>run_pipeline\<close>: the record at position \<open>k\<close> gets \<open>CLM-\<close> and \<open>k + 1\<close> in three digits.
  Every other field of every claim record keeps its value, and a record that has a
  \<open>claim_id\<close> is left as it is. No list object that exists before the run is written to,
  so the caller's flag lists keep their content. Each evidence entry holds a list object
  allocated during the run: a copy of the caller's flags, followed by
  \<open>ABSENCE_ASSERTION\<close> when the claim is flagged.
\<close>

theorem claim_records_changed_only_by_id_assignment:
  assumes wf: "\<forall>c\<in>set (input_claims inp). \<forall>r. claim_flags c = Some r \<longrightarrow> r < next_ref h"
    and w: "w = snd (run_pipeline loads dumps e inp run_id h ledger)"
  shows "length (mem_claims w) = length (input_claims inp) \<and>
    (\<forall>k<length (input_claims inp).
       mem_claims w ! k = (input_claims inp ! k)\<lparr>claim_id := claim_id (mem_claims w ! k)\<rparr> \<and>
       (claim_id (input_claims inp ! k) \<noteq> None \<longrightarrow> mem_claims w ! k = input_claims inp ! k) \<and>
       (claim_id (input_claims inp ! k) = None \<longrightarrow>
          claim_id (mem_claims w ! k) = Some (''CLM-'' @ format_03d (1 + int k)))) \<and>
    (\<forall>r<next_ref h. cells (mem_heap w) r = cells h r) \<and>
    (\<exists>ev. evidence_json w = Some ev \<and>
       length (ev_entries ev) = length (input_claims inp) \<and>
       (\<forall>k<length (input_claims inp).
          ent_claim_flags (ev_entries ev ! k) = next_ref h + k \<and>
          cells (mem_heap w) (next_ref h + k) =
            Some (caller_flags h (input_claims inp ! k) @
                  (if ent_claim_id (ev_entries ev ! k)
                        \<in> set (map flag_claim_id (detect_absence_assertions (mem_claims w)))
                   then [''ABSENCE_ASSERTION''] else []))))"
proof -
  let ?cs = "input_claims inp"
  let ?cs' = "assign_claim_ids 1 ?cs"
  define ids where "ids = set (map flag_claim_id (detect_absence_assertions ?cs'))"
  from run_pipeline_memory [of loads dumps e inp run_id h ledger]
  obtain rid ratio where
    mc: "mem_claims w = ?cs'"
    and ev: "evidence_json w = Some (fst (build_evidence_json rid ?cs' ids ratio (env_now e) h))"
    and mh: "mem_heap w = snd (build_evidence_json rid ?cs' ids ratio (env_now e) h)"
    unfolding ids_def w by blast
  have idsw: "set (map flag_claim_id (detect_absence_assertions (mem_claims w))) = ids"
    by (simp only: mc ids_def)
  obtain es h' where be: "build_entries 1 ?cs' ids (env_now e) [] h = (es, h')"
    by (cases "build_entries 1 ?cs' ids (env_now e) [] h") auto
  from be have ev': "ev_entries (fst (build_evidence_json rid ?cs' ids ratio (env_now e) h)) = es"
    and h': "snd (build_evidence_json rid ?cs' ids ratio (env_now e) h) = h'"
    by (simp_all add: build_evidence_json_def)
  from wf have wf': "\<forall>c\<in>set ?cs'. \<forall>r. claim_flags c = Some r \<longrightarrow> r < next_ref h"
    by (rule assign_claim_ids_flags)
  note spec = build_entries_spec [OF be wf']
  have len: "length ?cs' = length ?cs" by (rule assign_claim_ids_length)
  have nth: "?cs' ! k =
       (if claim_id (?cs ! k) = None
        then (?cs ! k)\<lparr>claim_id := Some (''CLM-'' @ format_03d (1 + int k))\<rparr>
        else ?cs ! k)" if "k < length ?cs" for k
    using that by (rule assign_claim_ids_nth)
  have claims_part: "\<forall>k<length ?cs.
       mem_claims w ! k = (?cs ! k)\<lparr>claim_id := claim_id (mem_claims w ! k)\<rparr> \<and>
       (claim_id (?cs ! k) \<noteq> None \<longrightarrow> mem_claims w ! k = ?cs ! k) \<and>
       (claim_id (?cs ! k) = None \<longrightarrow>
          claim_id (mem_claims w ! k) = Some (''CLM-'' @ format_03d (1 + int k)))"
    by (simp add: mc nth)
  from spec have frame: "\<forall>r<next_ref h. cells (mem_heap w) r = cells h r"
    by (simp add: mh h')
  from spec have es_len: "length es = length ?cs" by (simp add: len)
  have entries_part: "\<forall>k<length ?cs.
          ent_claim_flags (es ! k) = next_ref h + k \<and>
          cells (mem_heap w) (next_ref h + k) =
            Some (caller_flags h (?cs ! k) @
                  (if ent_claim_id (es ! k) \<in> set (map flag_claim_id (detect_absence_assertions (mem_claims w)))
                   then [''ABSENCE_ASSERTION''] else []))"
  proof (intro allI impI)
    fix k assume k: "k < length ?cs"
    with len have k': "k < length ?cs'" by simp
    from spec k' have e: "es ! k = entry_for (1 + int k) (?cs' ! k) (env_now e) (next_ref h + k)"
      and c: "cells h' (next_ref h + k) = Some (output_flags ids (1 + int k) (?cs' ! k) h)"
      by auto
    have cf: "caller_flags h (?cs' ! k) = caller_flags h (?cs ! k)"
      by (simp add: nth [OF k] caller_flags_def)
    from e have "ent_claim_flags (es ! k) = next_ref h + k"
      and "ent_claim_id (es ! k) = claim_cid (1 + int k) (?cs' ! k)"
      by (simp_all add: entry_for_def)
    with c cf show "ent_claim_flags (es ! k) = next_ref h + k \<and>
          cells (mem_heap w) (next_ref h + k) =
            Some (caller_flags h (?cs ! k) @
                  (if ent_claim_id (es ! k) \<in> set (map flag_claim_id (detect_absence_assertions (mem_claims w)))
                   then [''ABSENCE_ASSERTION''] else []))"
      unfolding idsw by (simp add: mh h' output_flags_def)
  qed
  have "\<exists>ev. evidence_json w = Some ev \<and>
       length (ev_entries ev) = length ?cs \<and>
       (\<forall>k<length ?cs.
          ent_claim_flags (ev_entries ev ! k) = next_ref h + k \<and>
          cells (mem_heap w) (next_ref h + k) =
            Some (caller_flags h (?cs ! k) @
                  (if ent_claim_id (ev_entries ev ! k)
                        \<in> set (map flag_claim_id (detect_absence_assertions (mem_claims w)))
                   then [''ABSENCE_ASSERTION''] else [])))"
    using ev es_len entries_part by (simp add: ev')
  with claims_part frame len mc show ?thesis by simp
qed

theorem claim_records_changed_only_by_id_assignment_witness:
  "input_claims (example_input None (Some example_claims)) = example_claims \<and>
   claim_flags (example_claims ! 0) = Some 0 \<and> claim_flags (example_claims ! 1) = None \<and>
   (0::nat) < next_ref example_heap \<and>
   mem_claims (snd (run_pipeline (\<lambda>s. None) (\<lambda>en. []) example_env
                      (example_input None (Some example_claims)) None example_heap None)) ! 0
     = (example_claims ! 0)\<lparr>claim_id := Some ''CLM-001''\<rparr> \<and>
   mem_claims (snd (run_pipeline (\<lambda>s. None) (\<lambda>en. []) example_env
                      (example_input None (Some example_claims)) None example_heap None)) ! 1
     = example_claims ! 1 \<and>
   cells (mem_heap (snd (run_pipeline (\<lambda>s. None) (\<lambda>en. []) example_env
                      (example_input None (Some example_claims)) None example_heap None))) 0
     = Some [''CALLER_TAG''] \<and>
   cells (mem_heap (snd (run_pipeline (\<lambda>s. None) (\<lambda>en. []) example_env
                      (example_input None (Some example_claims)) None example_heap None))) 1
     = Some [''CALLER_TAG'', ''ABSENCE_ASSERTION''] \<and>
   cells (mem_heap (snd (run_pipeline (\<lambda>s. None) (\<lambda>en. []) example_env
                      (example_input None (Some example_claims)) None example_heap None))) 2
     = Some []"
proof -
  let ?inp = "example_input None (Some example_claims)"
  let ?w = "snd (run_pipeline (\<lambda>s. None) (\<lambda>en. []) example_env ?inp None example_heap None)"
  have ic: "input_claims ?inp = example_claims"
    by (simp add: input_claims_def example_input_def)
  have len: "length example_claims = 2" by (simp add: example_claims_def)
  have f0: "claim_flags (example_claims ! 0) = Some 0" "claim_flags (example_claims ! 1) = None"
    "claim_id (example_claims ! 0) = None" "claim_id (example_claims ! 1) = Some ''X-7''"
    by (simp_all add: example_claims_def blank_claim_def)
  have nr: "next_ref example_heap = 1" "cells example_heap 0 = Some [''CALLER_TAG'']"
    by (simp_all add: example_heap_def)
  have fmt: "format_03d 1 = ''001''" by code_simp
  have wf: "\<forall>c\<in>set (input_claims ?inp). \<forall>r. claim_flags c = Some r \<longrightarrow> r < next_ref example_heap"
    unfolding ic by (simp add: example_claims_def blank_claim_def example_heap_def)
  have ids: "set (map flag_claim_id (detect_absence_assertions (mem_claims ?w))) = {''CLM-001''}"
    by code_simp
  have cf: "caller_flags example_heap (example_claims ! 0) = [''CALLER_TAG'']"
    "caller_flags example_heap (example_claims ! Suc 0) = []"
    by (simp_all add: caller_flags_def deref_def example_claims_def blank_claim_def
        example_heap_def)
  note T = claim_records_changed_only_by_id_assignment
    [OF wf refl, of "\<lambda>s. None" "\<lambda>en. []" example_env None None, unfolded ic len nr]
  from T have c0: "mem_claims ?w ! 0 = (example_claims ! 0)\<lparr>claim_id := claim_id (mem_claims ?w ! 0)\<rparr>"
    and i0: "claim_id (mem_claims ?w ! 0) = Some (''CLM-'' @ format_03d (1 + int 0))"
    and c1: "mem_claims ?w ! 1 = example_claims ! 1"
    using f0 by (auto simp: numeral_2_eq_2 All_less_Suc)
  from T have h0: "cells (mem_heap ?w) 0 = cells example_heap 0" by simp
  from T obtain ev where ev: "evidence_json ?w = Some ev"
    and e0: "ent_claim_flags (ev_entries ev ! 0) = 1 + 0"
    and e1: "ent_claim_flags (ev_entries ev ! 1) = 1 + 1"
    and l0: "cells (mem_heap ?w) (1 + 0) =
            Some (caller_flags example_heap (example_claims ! 0) @
                  (if ent_claim_id (ev_entries ev ! 0)
                        \<in> set (map flag_claim_id (detect_absence_assertions (mem_claims ?w)))
                   then [''ABSENCE_ASSERTION''] else []))"
    and l1: "cells (mem_heap ?w) (1 + 1) =
            Some (caller_flags example_heap (example_claims ! 1) @
                  (if ent_claim_id (ev_entries ev ! 1)
                        \<in> set (map flag_claim_id (detect_absence_assertions (mem_claims ?w)))
                   then [''ABSENCE_ASSERTION''] else []))"
    by (auto simp: numeral_2_eq_2 All_less_Suc)
  have ids0: "ent_claim_id (ev_entries (the (evidence_json ?w)) ! 0) = ''CLM-001''"
    "ent_claim_id (ev_entries (the (evidence_json ?w)) ! 1) = ''X-7''"
    by code_simp+
  from c0 i0 have m0: "mem_claims ?w ! 0 = (example_claims ! 0)\<lparr>claim_id := Some ''CLM-001''\<rparr>"
    by (simp add: fmt)
  from l0 [unfolded ids] ids0 ev
  have m1: "cells (mem_heap ?w) 1 = Some [''CALLER_TAG'', ''ABSENCE_ASSERTION'']"
    by (simp add: cf)
  from l1 [unfolded ids] ids0 ev have m2: "cells (mem_heap ?w) 2 = Some []"
    by (simp add: cf numeral_2_eq_2)
  from ic f0 nr m0 c1 h0 m1 m2 show ?thesis by simp
qed

text \<open>
  C10, as the specification states it, fails: a claim record loaded without \<open>claim_id\<close> is
  not the same record after the run. The run has written \<open>CLM-001\<close> into it.
\<close>

theorem claim_record_mutated_counterexample:
  "claim_id (blank_claim\<lparr>claim_text := Some ''Revenue grew''\<rparr>) = None \<and>
   mem_claims (snd (run_pipeline (\<lambda>s. None) (\<lambda>en. []) example_env
       (example_input None (Some [blank_claim\<lparr>claim_text := Some ''Revenue grew''\<rparr>]))
       None empty_heap None))
     = [blank_claim\<lparr>claim_id := Some ''CLM-001'', claim_text := Some ''Revenue grew''\<rparr>] \<and>
   mem_claims (snd (run_pipeline (\<lambda>s. None) (\<lambda>en. []) example_env
       (example_input None (Some [blank_claim\<lparr>claim_text := Some ''Revenue grew''\<rparr>]))
       None empty_heap None))
     \<noteq> [blank_claim\<lparr>claim_text := Some ''Revenue grew''\<rparr>]"
proof -
  have a: "mem_claims (snd (run_pipeline (\<lambda>s. None) (\<lambda>en. []) example_env
       (example_input None (Some [blank_claim\<lparr>claim_text := Some ''Revenue grew''\<rparr>]))
       None empty_heap None))
     = [blank_claim\<lparr>claim_id := Some ''CLM-001'', claim_text := Some ''Revenue grew''\<rparr>]"
    by code_simp
  then show ?thesis by (simp add: blank_claim_def)
qed

end
